theory Spec2Isabelle
  imports Main "HOL-Library.Word"
begin

section \<open>JavaScript values used by the component\<close>

text \<open>
  A JavaScript string is a sequence of 16-bit code units. String literals of the source
  are ASCII; \<open>js\<close> turns an ASCII literal into its code units.
\<close>

type_synonym jsstring = "16 word list"

definition js :: "string \<Rightarrow> jsstring" where
  "js s = map (\<lambda>c. of_nat (of_char c)) s"

text \<open>
  The values that flow through the component state, the Turn objects, the request payload
  and the parsed response body. A JSON number is carried as an integer: the component
  never computes with one.
\<close>

datatype jsval =
    JUndefined
  | JNull
  | JBool bool
  | JNum int
  | JStr jsstring
  | JArr "jsval list"
  | JObj "(jsstring \<times> jsval) list"

text \<open>ToBoolean, as used by \<open>!\<close>, \<open>&&\<close> and \<open>||\<close>.\<close>

fun truthy :: "jsval \<Rightarrow> bool" where
  "truthy JUndefined = False"
| "truthy JNull = False"
| "truthy (JBool b) = b"
| "truthy (JNum n) = (n \<noteq> 0)"
| "truthy (JStr s) = (s \<noteq> [])"
| "truthy (JArr _) = True"
| "truthy (JObj _) = True"

text \<open>\<open>a || b\<close>: the left operand when it is truthy, the right one otherwise.\<close>

definition js_or :: "jsval \<Rightarrow> jsval \<Rightarrow> jsval" where
  "js_or a b = (if truthy a then a else b)"

text \<open>
  \<open>String.prototype.trim\<close> removes leading and trailing WhiteSpace and LineTerminator
  code units (ECMAScript: TAB, VT, FF, SP, NBSP, ZWNBSP, the Unicode space separators,
  LF, CR, LS, PS).
\<close>

definition is_js_space :: "16 word \<Rightarrow> bool" where
  "is_js_space c \<longleftrightarrow>
     c = 0x0009 \<or> c = 0x000A \<or> c = 0x000B \<or> c = 0x000C \<or> c = 0x000D \<or>
     c = 0x0020 \<or> c = 0x00A0 \<or> c = 0x1680 \<or>
     (0x2000 \<le> c \<and> c \<le> 0x200A) \<or>
     c = 0x2028 \<or> c = 0x2029 \<or> c = 0x202F \<or> c = 0x205F \<or>
     c = 0x3000 \<or> c = 0xFEFF"

definition trim :: "jsstring \<Rightarrow> jsstring" where
  "trim s = rev (dropWhile is_js_space (rev (dropWhile is_js_space s)))"

text \<open>\<open>s.startsWith(p)\<close>.\<close>

definition startsWith :: "jsstring \<Rightarrow> jsstring \<Rightarrow> bool" where
  "startsWith s p \<longleftrightarrow> take (length p) s = p"

text \<open>
  \<open>s.split(sep)\<close> for a one-unit separator: the pieces between the separators, of which
  there is always at least one.
\<close>

fun split :: "jsstring \<Rightarrow> 16 word \<Rightarrow> jsstring list" where
  "split [] sep = [[]]"
| "split (c # cs) sep =
     (if c = sep then [] # split cs sep
      else (case split cs sep of
              [] \<Rightarrow> [[c]]
            | p # ps \<Rightarrow> (c # p) # ps))"

text \<open>\<open>xs[i]\<close> on an array of strings: \<open>undefined\<close> beyond the end.\<close>

definition at_index :: "jsstring list \<Rightarrow> nat \<Rightarrow> jsval" where
  "at_index xs i = (if i < length xs then JStr (xs ! i) else JUndefined)"

datatype js_error =
    TypeError
  | ReadError

section \<open>Component state\<close>

datatype role = User | Assistant

text \<open>
  A Turn object \<open>{ role, text, image }\<close>; the fields \<open>text\<close> and \<open>image\<close> are
  \<open>text_t\<close> and \<open>image_t\<close> here.
\<close>

record turn =
  role :: role
  text_t :: jsval
  image_t :: jsval

record state =
  messages :: "turn list"
  input :: jsstring
  isThinking :: bool
  imageBase64 :: jsval
  imagePreview :: jsval

text \<open>The initial values given to \<open>useState\<close>.\<close>

definition initial :: state where
  "initial = \<lparr>messages = [], input = [], isThinking = False,
              imageBase64 = JNull, imagePreview = JNull\<rparr>"

text \<open>
  A handler changes the state only through the setters. The calls a handler makes in one
  run (up to its next \<open>await\<close>, or to its end) are applied in order and committed
  together before the next render.
\<close>

datatype update =
    SetMessages "turn list \<Rightarrow> turn list"
  | SetInput jsstring
  | SetIsThinking bool
  | SetImageBase64 jsval
  | SetImagePreview jsval

fun apply_update :: "update \<Rightarrow> state \<Rightarrow> state" where
  "apply_update (SetMessages f) s = s\<lparr>messages := f (messages s)\<rparr>"
| "apply_update (SetInput v) s = s\<lparr>input := v\<rparr>"
| "apply_update (SetIsThinking b) s = s\<lparr>isThinking := b\<rparr>"
| "apply_update (SetImageBase64 v) s = s\<lparr>imageBase64 := v\<rparr>"
| "apply_update (SetImagePreview v) s = s\<lparr>imagePreview := v\<rparr>"

definition commit :: "update list \<Rightarrow> state \<Rightarrow> state" where
  "commit us s = fold apply_update us s"

section \<open>Reading an image: \<open>fileToBase64\<close>\<close>

text \<open>
  A \<open>File\<close> as the handlers see it: its declared media type, and what a \<open>FileReader\<close>
  produces for \<open>readAsDataURL\<close>: the data URL, or nothing when the reader reports an
  error.
\<close>

record jsfile =
  file_type :: jsstring
  reader_result :: "jsstring option"

text \<open>
  \<open>fileToBase64(file)\<close>: the promise rejects when \<open>file\<close> is \<open>null\<close>
  (\<open>readAsDataURL\<close> throws) or when the reader fails; otherwise it resolves with the second
  piece of the data URL split at commas.
\<close>

definition fileToBase64 :: "jsfile option \<Rightarrow> js_error + jsval" where
  "fileToBase64 fo =
     (case fo of
        None \<Rightarrow> Inl TypeError
      | Some f \<Rightarrow>
          (case reader_result f of
             None \<Rightarrow> Inl ReadError
           | Some r \<Rightarrow> Inr (at_index (split r 0x2C) 1)))"

section \<open>Attaching an image: \<open>handlePaste\<close>, \<open>handleFile\<close> and the remove button\<close>

definition image_prefix :: jsstring where
  "image_prefix = js ''image/''"

text \<open>
  The calls made once \<open>await fileToBase64(file)\<close> has resolved with \<open>b64\<close>;
  \<open>preview\<close> is the string that \<open>URL.createObjectURL(file)\<close> returns.
\<close>

definition attach_updates :: "jsval \<Rightarrow> jsstring \<Rightarrow> update list" where
  "attach_updates b64 preview = [SetImageBase64 b64, SetImagePreview (JStr preview)]"

text \<open>
  \<open>handleFile(file)\<close>, with \<open>e.target.files?.[0]\<close> as argument (\<open>None\<close> when no file
  was chosen). The handler reads no state and writes none before its \<open>await\<close>, so its
  effect is a change of the state current when the read has finished; a rejected read
  ends the handler without a setter call.
\<close>

definition handleFile :: "jsfile option \<Rightarrow> jsstring \<Rightarrow> state \<Rightarrow> state" where
  "handleFile fo preview s =
     (case fo of
        None \<Rightarrow> s
      | Some f \<Rightarrow>
          if startsWith (file_type f) image_prefix then
            (case fileToBase64 (Some f) of
               Inl err \<Rightarrow> s
             | Inr b64 \<Rightarrow> commit (attach_updates b64 preview) s)
          else s)"

text \<open>
  A clipboard item: its media type and what \<open>getAsFile()\<close> returns (\<open>null\<close> for an item
  that is not a file).
\<close>

record clip_item =
  item_type :: jsstring
  getAsFile :: "jsfile option"

text \<open>\<open>handlePaste(e)\<close>, with \<open>[...e.clipboardData.items]\<close> as argument.\<close>

definition handlePaste :: "clip_item list \<Rightarrow> jsstring \<Rightarrow> state \<Rightarrow> state" where
  "handlePaste items preview s =
     (case find (\<lambda>i. startsWith (item_type i) image_prefix) items of
        None \<Rightarrow> s
      | Some item \<Rightarrow>
          (case fileToBase64 (getAsFile item) of
             Inl err \<Rightarrow> s
           | Inr b64 \<Rightarrow> commit (attach_updates b64 preview) s))"

text \<open>The \<open>onClick\<close> of the remove button shown over the preview.\<close>

definition removeAttachment :: "state \<Rightarrow> state" where
  "removeAttachment s = commit [SetImageBase64 JNull, SetImagePreview JNull] s"

text \<open>The \<open>onChange\<close> of the text field.\<close>

definition changeInput :: "jsstring \<Rightarrow> state \<Rightarrow> state" where
  "changeInput v s = commit [SetInput v] s"

section \<open>Submitting: \<open>sendMessage\<close>\<close>

text \<open>The request body \<open>{ text, image_base64, session_id }\<close> (\<open>text\<close> is \<open>text_p\<close>).\<close>

record payload =
  text_p :: jsval
  image_base64 :: jsval
  session_id :: jsstring

record request =
  url :: jsstring
  http_method :: jsstring
  content_type :: jsstring
  body :: payload

text \<open>
  \<open>sendMessage\<close> up to its \<open>await fetch(...)\<close>: the new state and the requests issued.
  The handler is the one of the latest render, so the \<open>input\<close>, \<open>imageBase64\<close> and
  \<open>imagePreview\<close> it reads are those of the current state.
\<close>

definition sendMessage :: "state \<Rightarrow> state \<times> request list" where
  "sendMessage s =
     (if \<not> truthy (JStr (trim (input s))) \<and> \<not> truthy (imageBase64 s) then (s, [])
      else
        let user_turn = \<lparr>role = User, text_t = js_or (JStr (input s)) (JStr []),
                         image_t = imagePreview s\<rparr>;
            p = \<lparr>text_p = js_or (JStr (input s)) JNull,
                 image_base64 = js_or (imageBase64 s) JNull,
                 session_id = js ''sap-session-1''\<rparr>
        in (commit [SetMessages (\<lambda>prev. prev @ [user_turn]),
                    SetInput [],
                    SetImageBase64 JNull,
                    SetImagePreview JNull,
                    SetIsThinking True] s,
            [\<lparr>url = js ''http://localhost:8000/query'', http_method = js ''POST'',
              content_type = js ''application/json'', body = p\<rparr>]))"

text \<open>
  How a request settles: \<open>fetch\<close> rejects (no response at all), or it resolves with a
  response of some status whose body \<open>res.json()\<close> either fails to parse (\<open>None\<close>) or
  parses to a value. \<open>fetch\<close> resolves for every status; the source never reads it.
\<close>

datatype outcome =
    FetchRejected
  | Responded nat "jsval option"

text \<open>
  \<open>data.answer\<close>: a \<open>TypeError\<close> on \<open>null\<close> and \<open>undefined\<close>, the property of an
  object, and \<open>undefined\<close> where there is no such property.
\<close>

fun get_answer :: "jsval \<Rightarrow> js_error + jsval" where
  "get_answer JUndefined = Inl TypeError"
| "get_answer JNull = Inl TypeError"
| "get_answer (JObj kvs) =
     (case map_of kvs (js ''answer'') of None \<Rightarrow> Inr JUndefined | Some v \<Rightarrow> Inr v)"
| "get_answer _ = Inr JUndefined"

definition error_turn :: turn where
  "error_turn = \<lparr>role = Assistant, text_t = JStr (js ''Error contacting backend.''),
                  image_t = JNull\<rparr>"

text \<open>
  The rest of \<open>sendMessage\<close>, run on the state current when the request has settled.
  A rejection by \<open>fetch\<close> or by \<open>res.json()\<close> is caught. \<open>data.answer\<close> is read inside
  the function handed to \<open>setMessages\<close>, which React calls while rendering, outside
  the \<open>try\<close>: its \<open>TypeError\<close> is not caught and the component fails to render.
\<close>

definition sendMessage_settled :: "outcome \<Rightarrow> state \<Rightarrow> js_error + state" where
  "sendMessage_settled out s =
     (case out of
        FetchRejected \<Rightarrow>
          Inr (commit [SetMessages (\<lambda>prev. prev @ [error_turn]), SetIsThinking False] s)
      | Responded status None \<Rightarrow>
          Inr (commit [SetMessages (\<lambda>prev. prev @ [error_turn]), SetIsThinking False] s)
      | Responded status (Some data) \<Rightarrow>
          (case get_answer data of
             Inl err \<Rightarrow> Inl err
           | Inr answer \<Rightarrow>
               Inr (commit [SetMessages (\<lambda>prev. prev @
                              [\<lparr>role = Assistant, text_t = answer, image_t = JNull\<rparr>]),
                            SetIsThinking False] s)))"

section \<open>The component as a sequence of events\<close>

text \<open>
  Every state change happens in one of these runs on the single UI thread: a keystroke,
  the end of a paste or of a file choice (with the preview string the browser made),
  a click on the remove button, a submit, and the settling of a request. A sequence
  may settle a request at any point, also one that was never sent: this only adds
  states to those the component reaches.
\<close>

datatype event =
    Change jsstring
  | Paste "clip_item list" jsstring
  | PickFile "jsfile option" jsstring
  | Remove
  | Send
  | Settle outcome

fun step :: "event \<Rightarrow> state \<Rightarrow> js_error + state" where
  "step (Change v) s = Inr (changeInput v s)"
| "step (Paste items preview) s = Inr (handlePaste items preview s)"
| "step (PickFile fo preview) s = Inr (handleFile fo preview s)"
| "step Remove s = Inr (removeAttachment s)"
| "step Send s = Inr (fst (sendMessage s))"
| "step (Settle out) s = sendMessage_settled out s"

fun run :: "event list \<Rightarrow> state \<Rightarrow> js_error + state" where
  "run [] s = Inr s"
| "run (e # es) s = (case step e s of Inl err \<Rightarrow> Inl err | Inr s' \<Rightarrow> run es s')"

text \<open>The payload and the preview are both \<open>null\<close>, or neither is.\<close>

definition both_or_none :: "state \<Rightarrow> bool" where
  "both_or_none s \<longleftrightarrow> (imageBase64 s = JNull) = (imagePreview s = JNull)"

section \<open>Concrete inputs\<close>

text \<open>
  An image file of no bytes: its data URL ends at the comma, and the payload is \<open>""\<close>.
  (A reader that answers \<open>data:\<close> alone for such a file makes the payload
  \<open>undefined\<close>, by \<open>fileToBase64_no_comma\<close> below; either value is falsy.)
\<close>

definition zero_byte_png :: jsfile where
  "zero_byte_png = \<lparr>file_type = js ''image/png'',
                     reader_result = Some (js ''data:image/png;base64,'')\<rparr>"

definition small_png :: jsfile where
  "small_png = \<lparr>file_type = js ''image/png'',
                 reader_result = Some (js ''data:image/png;base64,iVBORw0KGgo='')\<rparr>"

definition small_gif :: jsfile where
  "small_gif = \<lparr>file_type = js ''image/gif'',
                 reader_result = Some (js ''data:image/gif;base64,R0lGODlh'')\<rparr>"

definition notes_pdf :: jsfile where
  "notes_pdf = \<lparr>file_type = js ''application/pdf'',
                 reader_result = Some (js ''data:application/pdf;base64,JVBERi0='')\<rparr>"

definition blob1 :: jsstring where
  "blob1 = js ''blob:http://localhost:5173/1''"

definition blob2 :: jsstring where
  "blob2 = js ''blob:http://localhost:5173/2''"

text \<open>The state after typing \<open>hi\<close> and submitting: a request is in flight.\<close>

definition awaiting :: state where
  "awaiting = \<lparr>messages = [\<lparr>role = User, text_t = JStr (js ''hi''), image_t = JNull\<rparr>],
               input = [], isThinking = True, imageBase64 = JNull, imagePreview = JNull\<rparr>"

text \<open>The state after choosing \<open>small_png\<close> in the file picker and typing \<open>look\<close>.\<close>

definition composing :: state where
  "composing = \<lparr>messages = [], input = js ''look'', isThinking = False,
                imageBase64 = JStr (js ''iVBORw0KGgo=''), imagePreview = JStr blob1\<rparr>"

text \<open>The state after choosing \<open>zero_byte_png\<close> in the file picker.\<close>

definition zero_byte_pending :: state where
  "zero_byte_pending = \<lparr>messages = [], input = [], isThinking = False,
                        imageBase64 = JStr [], imagePreview = JStr blob1\<rparr>"

text \<open>A JSON error body, as a backend sends it with a status such as 404.\<close>

definition not_found_body :: jsval where
  "not_found_body = JObj [(js ''detail'', JStr (js ''Not Found''))]"

section \<open>Basic facts\<close>

lemma commit_Nil: "commit [] s = s"
  by (simp add: commit_def)

lemma commit_Cons: "commit (u # us) s = commit us (apply_update u s)"
  by (simp add: commit_def)

text \<open>A string trims to the empty string exactly when all its code units are space.\<close>

lemma trim_Nil_iff: "trim s = [] \<longleftrightarrow> list_all is_js_space s"
proof
  assume "trim s = []"
  then have rest: "\<forall>c \<in> set (dropWhile is_js_space s). is_js_space c"
    by (simp add: trim_def)
  have "dropWhile is_js_space s = []"
  proof (rule ccontr)
    assume ne: "dropWhile is_js_space s \<noteq> []"
    then have "\<not> is_js_space (hd (dropWhile is_js_space s))"
      by (rule hd_dropWhile)
    moreover from ne have "hd (dropWhile is_js_space s) \<in> set (dropWhile is_js_space s)"
      by simp
    ultimately show False using rest by blast
  qed
  then show "list_all is_js_space s"
    by (simp add: list_all_iff)
next
  assume "list_all is_js_space s"
  then have "dropWhile is_js_space s = []"
    by (simp add: list_all_iff)
  then show "trim s = []"
    unfolding trim_def by (simp del: dropWhile_eq_Nil_conv)
qed

lemma trim_nonempty: "trim s \<noteq> [] \<Longrightarrow> s \<noteq> []"
  by (auto simp: trim_def)

text \<open>A data URL with one comma: \<open>fileToBase64\<close> resolves with what follows it.\<close>

lemma split_no_sep: "sep \<notin> set s \<Longrightarrow> split s sep = [s]"
  by (induction s) auto

lemma split_at_first_sep:
  "sep \<notin> set p \<Longrightarrow> split (p @ sep # r) sep = p # split r sep"
  by (induction p) auto

lemma fileToBase64_data_url:
  assumes "reader_result f = Some (hdr @ 0x2C # b64)"
    and "0x2C \<notin> set hdr" and "0x2C \<notin> set b64"
  shows "fileToBase64 (Some f) = Inr (JStr b64)"
  using assms by (simp add: fileToBase64_def split_at_first_sep split_no_sep at_index_def)

lemma at_index_not_null: "at_index xs i \<noteq> JNull"
  by (simp add: at_index_def)

lemma fileToBase64_no_comma:
  "reader_result f = Some r \<Longrightarrow> 0x2C \<notin> set r \<Longrightarrow> fileToBase64 (Some f) = Inr JUndefined"
  by (simp add: fileToBase64_def split_no_sep at_index_def)

lemma fileToBase64_not_null: "fileToBase64 fo = Inr b \<Longrightarrow> b \<noteq> JNull"
  by (auto simp: fileToBase64_def at_index_not_null split: option.splits)

lemma fileToBase64_small_png:
  "fileToBase64 (Some small_png) = Inr (JStr (js ''iVBORw0KGgo=''))"
  by (simp add: fileToBase64_def small_png_def js_def at_index_def)

lemma fileToBase64_small_gif:
  "fileToBase64 (Some small_gif) = Inr (JStr (js ''R0lGODlh''))"
  by (simp add: fileToBase64_def small_gif_def js_def at_index_def)

lemma fileToBase64_zero_byte_png:
  "fileToBase64 (Some zero_byte_png) = Inr (JStr [])"
  by (simp add: fileToBase64_def zero_byte_png_def js_def at_index_def)

lemma small_png_is_image: "startsWith (file_type small_png) image_prefix"
  by (simp add: startsWith_def small_png_def image_prefix_def js_def)

lemma small_gif_is_image: "startsWith (file_type small_gif) image_prefix"
  by (simp add: startsWith_def small_gif_def image_prefix_def js_def)

lemma zero_byte_png_is_image: "startsWith (file_type zero_byte_png) image_prefix"
  by (simp add: startsWith_def zero_byte_png_def image_prefix_def js_def)

lemma notes_pdf_no_image: "\<not> startsWith (file_type notes_pdf) image_prefix"
  by (simp add: startsWith_def notes_pdf_def image_prefix_def js_def)

text \<open>The concrete states are reached from the initial one.\<close>

lemma awaiting_reached: "run [Change (js ''hi''), Send] initial = Inr awaiting"
  by (simp add: changeInput_def sendMessage_def initial_def awaiting_def commit_Cons
      commit_Nil js_def trim_def is_js_space_def js_or_def)

lemma composing_reached:
  "run [PickFile (Some small_png) blob1, Change (js ''look'')] initial = Inr composing"
  by (simp add: handleFile_def small_png_is_image fileToBase64_small_png attach_updates_def
      changeInput_def initial_def composing_def commit_Cons commit_Nil)

section \<open>The two attachment fields are set and cleared together\<close>

text \<open>
  Section 3 of the specification: the pending attachment has a payload and a preview,
  never one without the other. Every event keeps the two fields both \<open>null\<close> or both
  set, so this holds of every state the component reaches.
\<close>

lemma step_both_or_none:
  assumes "both_or_none s" and "step e s = Inr s'"
  shows "both_or_none s'"
proof (cases e)
  case (Change v)
  with assms show ?thesis
    by (auto simp: both_or_none_def changeInput_def commit_Cons commit_Nil)
next
  case (Paste items preview)
  with assms show ?thesis
    by (auto simp: both_or_none_def handlePaste_def attach_updates_def commit_Cons commit_Nil
        dest: fileToBase64_not_null split: option.splits sum.splits)
next
  case (PickFile fo preview)
  with assms show ?thesis
    by (auto simp: both_or_none_def handleFile_def attach_updates_def commit_Cons commit_Nil
        dest: fileToBase64_not_null split: option.splits sum.splits if_splits)
next
  case Remove
  with assms show ?thesis
    by (auto simp: both_or_none_def removeAttachment_def commit_Cons commit_Nil)
next
  case Send
  with assms show ?thesis
    by (auto simp: both_or_none_def sendMessage_def Let_def commit_Cons commit_Nil
        split: if_splits)
next
  case (Settle out)
  with assms show ?thesis
    by (auto simp: both_or_none_def sendMessage_settled_def commit_Cons commit_Nil
        split: outcome.splits option.splits sum.splits)
qed

lemma run_both_or_none:
  "both_or_none s \<Longrightarrow> run es s = Inr s' \<Longrightarrow> both_or_none s'"
proof (induction es arbitrary: s)
  case Nil
  then show ?case by simp
next
  case (Cons e es)
  then show ?case
    by (auto split: sum.splits dest: step_both_or_none)
qed

lemma reachable_both_or_none: "run es initial = Inr s \<Longrightarrow> both_or_none s"
  by (rule run_both_or_none [of initial]) (simp_all add: both_or_none_def initial_def)

section \<open>Submitting\<close>

text \<open>
  Claim C2. When the draft is empty after trimming and no attachment is pending, invoking
  \<open>sendMessage\<close> changes nothing: the state it leaves is the state it found (no Turn
  appended; draft, attachment and thinking flag as before) and it issues no request.
\<close>

theorem sendMessage_empty_noop:
  assumes "trim (input s) = []"
    and "imageBase64 s = JNull" and "imagePreview s = JNull"
  shows "sendMessage s = (s, [])"
  using assms by (simp add: sendMessage_def)

theorem sendMessage_empty_noop_witness:
  "trim (input (changeInput (js ''  '') awaiting)) = [] \<and>
   imageBase64 (changeInput (js ''  '') awaiting) = JNull \<and>
   imagePreview (changeInput (js ''  '') awaiting) = JNull \<and>
   sendMessage (changeInput (js ''  '') awaiting) = (changeInput (js ''  '') awaiting, [])"
  using sendMessage_empty_noop [of "changeInput (js ''  '') awaiting"]
  by (simp add: changeInput_def awaiting_def commit_Cons commit_Nil trim_def js_def
      is_js_space_def)

text \<open>
  Claim C3. A submit with a draft that is non-empty after trimming and no pending
  attachment appends exactly one user Turn, carrying the draft as typed and no image, and
  issues exactly one request, whose payload has the draft as \<open>text\<close> and \<open>null\<close> as
  \<open>image_base64\<close>.
\<close>

theorem sendMessage_text_only:
  assumes "trim (input s) \<noteq> []"
    and "imageBase64 s = JNull" and "imagePreview s = JNull"
  shows "messages (fst (sendMessage s)) =
           messages s @ [\<lparr>role = User, text_t = JStr (input s), image_t = JNull\<rparr>] \<and>
         map body (snd (sendMessage s)) =
           [\<lparr>text_p = JStr (input s), image_base64 = JNull,
             session_id = js ''sap-session-1''\<rparr>]"
proof -
  from assms(1) have "input s \<noteq> []"
    by (rule trim_nonempty)
  with assms show ?thesis
    by (simp add: sendMessage_def js_or_def commit_Cons commit_Nil Let_def)
qed

theorem sendMessage_text_only_witness:
  "trim (input (changeInput (js '' hi'') initial)) = js ''hi'' \<and>
   messages (fst (sendMessage (changeInput (js '' hi'') initial))) =
     [\<lparr>role = User, text_t = JStr (js '' hi''), image_t = JNull\<rparr>] \<and>
   map body (snd (sendMessage (changeInput (js '' hi'') initial))) =
     [\<lparr>text_p = JStr (js '' hi''), image_base64 = JNull, session_id = js ''sap-session-1''\<rparr>]"
  using sendMessage_text_only [of "changeInput (js '' hi'') initial"]
  by (simp add: changeInput_def initial_def commit_Cons commit_Nil trim_def js_def
      is_js_space_def)

text \<open>
  Claim C4, amended. A submit with an empty draft and a pending attachment whose base64
  payload is a non-empty string appends exactly one user Turn with text \<open>""\<close> and the
  attachment's preview reference, and issues one request whose payload has \<open>null\<close> as
  \<open>text\<close> and the attachment's base64 payload as \<open>image_base64\<close>.
\<close>

theorem sendMessage_attachment_only:
  assumes "input s = []" and "imageBase64 s = JStr b64" and "b64 \<noteq> []"
  shows "messages (fst (sendMessage s)) =
           messages s @ [\<lparr>role = User, text_t = JStr [], image_t = imagePreview s\<rparr>] \<and>
         map body (snd (sendMessage s)) =
           [\<lparr>text_p = JNull, image_base64 = JStr b64, session_id = js ''sap-session-1''\<rparr>]"
  using assms by (simp add: sendMessage_def js_or_def commit_Cons commit_Nil Let_def)

theorem sendMessage_attachment_only_witness:
  "input (changeInput [] composing) = [] \<and>
   imageBase64 (changeInput [] composing) = JStr (js ''iVBORw0KGgo='') \<and>
   js ''iVBORw0KGgo='' \<noteq> [] \<and>
   messages (fst (sendMessage (changeInput [] composing))) =
     [\<lparr>role = User, text_t = JStr [], image_t = JStr blob1\<rparr>] \<and>
   map body (snd (sendMessage (changeInput [] composing))) =
     [\<lparr>text_p = JNull, image_base64 = JStr (js ''iVBORw0KGgo=''),
       session_id = js ''sap-session-1''\<rparr>]"
  using sendMessage_attachment_only
    [of "changeInput [] composing" "js ''iVBORw0KGgo=''"]
  by (simp add: changeInput_def composing_def commit_Cons commit_Nil js_def)

text \<open>
  Claim C4 as stated fails for an attachment whose payload is the empty string. Choosing
  an image file of no bytes stores the payload \<open>""\<close> and a preview; with an empty draft
  \<open>sendMessage\<close> then returns at its guard: no Turn, no request, the attachment still
  pending.
\<close>

theorem zero_byte_attachment_not_sent:
  "run [PickFile (Some zero_byte_png) blob1] initial = Inr zero_byte_pending \<and>
   input zero_byte_pending = [] \<and>
   imageBase64 zero_byte_pending = JStr [] \<and>
   imagePreview zero_byte_pending = JStr blob1 \<and>
   sendMessage zero_byte_pending = (zero_byte_pending, [])"
  by (simp add: handleFile_def zero_byte_png_is_image fileToBase64_zero_byte_png
      attach_updates_def commit_Cons commit_Nil initial_def zero_byte_pending_def
      sendMessage_def trim_def)

text \<open>
  Claim C10, amended. A submit with a draft that is non-empty but all whitespace and a
  pending attachment whose base64 payload is a non-empty string proceeds although the
  draft trims to nothing; the user Turn's text and the payload's \<open>text\<close> are the draft
  as typed, neither \<open>""\<close> nor \<open>null\<close>.
\<close>

theorem sendMessage_whitespace_draft_untrimmed:
  assumes "input s \<noteq> []" and "list_all is_js_space (input s)"
    and "imageBase64 s = JStr b64" and "b64 \<noteq> []"
  shows "trim (input s) = [] \<and>
         messages (fst (sendMessage s)) =
           messages s @ [\<lparr>role = User, text_t = JStr (input s), image_t = imagePreview s\<rparr>] \<and>
         map body (snd (sendMessage s)) =
           [\<lparr>text_p = JStr (input s), image_base64 = JStr b64,
             session_id = js ''sap-session-1''\<rparr>] \<and>
         JStr (input s) \<noteq> JStr [] \<and> JStr (input s) \<noteq> JNull"
proof -
  from assms(2) have "trim (input s) = []"
    by (simp add: trim_Nil_iff)
  with assms show ?thesis
    by (simp add: sendMessage_def js_or_def commit_Cons commit_Nil Let_def)
qed

theorem sendMessage_whitespace_draft_untrimmed_witness:
  "input (changeInput (js ''  '') composing) = js ''  '' \<and>
   list_all is_js_space (js ''  '') \<and>
   messages (fst (sendMessage (changeInput (js ''  '') composing))) =
     [\<lparr>role = User, text_t = JStr (js ''  ''), image_t = JStr blob1\<rparr>] \<and>
   map body (snd (sendMessage (changeInput (js ''  '') composing))) =
     [\<lparr>text_p = JStr (js ''  ''), image_base64 = JStr (js ''iVBORw0KGgo=''),
       session_id = js ''sap-session-1''\<rparr>]"
  using sendMessage_whitespace_draft_untrimmed
    [of "changeInput (js ''  '') composing" "js ''iVBORw0KGgo=''"]
  by (simp add: changeInput_def composing_def commit_Cons commit_Nil js_def is_js_space_def)

text \<open>
  Claim C10 as stated fails for an attachment whose payload is the empty string. With an
  image file of no bytes pending and a draft of one space, \<open>sendMessage\<close> returns at its
  guard: nothing is appended and nothing is sent.
\<close>

theorem blank_draft_empty_payload_not_sent:
  "run [PickFile (Some zero_byte_png) blob1, Change (js '' '')] initial =
     Inr (zero_byte_pending\<lparr>input := js '' ''\<rparr>) \<and>
   imagePreview (zero_byte_pending\<lparr>input := js '' ''\<rparr>) = JStr blob1 \<and>
   sendMessage (zero_byte_pending\<lparr>input := js '' ''\<rparr>) =
     (zero_byte_pending\<lparr>input := js '' ''\<rparr>, [])"
  by (simp add: handleFile_def zero_byte_png_is_image fileToBase64_zero_byte_png
      attach_updates_def changeInput_def commit_Cons commit_Nil initial_def
      zero_byte_pending_def sendMessage_def trim_def js_def is_js_space_def)

text \<open>
  Claim C7. A submit that passes the guard leaves, in the very run that issues the
  request, an empty draft, no attachment (payload and preview both \<open>null\<close>) and the
  thinking flag set; the continuation that handles the settled request is a later run.
\<close>

theorem sendMessage_clears_composer:
  assumes "truthy (JStr (trim (input s))) \<or> truthy (imageBase64 s)"
  shows "input (fst (sendMessage s)) = [] \<and>
         imageBase64 (fst (sendMessage s)) = JNull \<and>
         imagePreview (fst (sendMessage s)) = JNull \<and>
         isThinking (fst (sendMessage s)) = True \<and>
         length (snd (sendMessage s)) = 1"
  using assms by (auto simp add: sendMessage_def commit_Cons commit_Nil Let_def)

theorem sendMessage_clears_composer_witness:
  "truthy (imageBase64 composing) \<and>
   fst (sendMessage composing) =
     \<lparr>messages = [\<lparr>role = User, text_t = JStr (js ''look''), image_t = JStr blob1\<rparr>],
      input = [], isThinking = True, imageBase64 = JNull, imagePreview = JNull\<rparr> \<and>
   length (snd (sendMessage composing)) = 1"
  using sendMessage_clears_composer [of composing]
  by (simp add: composing_def sendMessage_def js_or_def commit_Cons commit_Nil js_def)

section \<open>The settled request\<close>

text \<open>
  Claim C1, amended. For every submitted request that fails because \<open>fetch\<close> rejects
  (the backend is unreachable) or because the response body is not valid JSON, whatever
  the status, \<open>sendMessage\<close> appends exactly one assistant Turn whose text is exactly
  \<open>Error contacting backend.\<close> and whose image is none, and the thinking flag returns to
  false.
\<close>

theorem backend_failure_appends_error_turn:
  assumes "out = FetchRejected \<or> out = Responded status None"
  shows "sendMessage_settled out s =
           Inr (s\<lparr>messages := messages s @
                     [\<lparr>role = Assistant, text_t = JStr (js ''Error contacting backend.''),
                       image_t = JNull\<rparr>],
                   isThinking := False\<rparr>)"
  using assms
  by (auto simp: sendMessage_settled_def error_turn_def commit_Cons commit_Nil)

theorem backend_failure_appends_error_turn_witness:
  "sendMessage_settled FetchRejected awaiting =
     Inr \<lparr>messages = [\<lparr>role = User, text_t = JStr (js ''hi''), image_t = JNull\<rparr>,
                      \<lparr>role = Assistant, text_t = JStr (js ''Error contacting backend.''),
                        image_t = JNull\<rparr>],
          input = [], isThinking = False, imageBase64 = JNull, imagePreview = JNull\<rparr> \<and>
   sendMessage_settled (Responded 502 None) awaiting = sendMessage_settled FetchRejected awaiting"
  using backend_failure_appends_error_turn [of FetchRejected 502 awaiting]
    backend_failure_appends_error_turn [of "Responded 502 None" 502 awaiting]
  by (simp add: awaiting_def)

text \<open>
  Claim C1 as stated fails for a response of a status outside 2xx whose body is JSON:
  \<open>fetch\<close> resolves, \<open>res.json()\<close> resolves, and the Turn appended carries
  \<open>data.answer\<close>, here \<open>undefined\<close>, not the error text.
\<close>

theorem non_2xx_json_body_no_error_turn:
  "sendMessage_settled (Responded 404 (Some not_found_body)) awaiting =
     Inr \<lparr>messages = [\<lparr>role = User, text_t = JStr (js ''hi''), image_t = JNull\<rparr>,
                      \<lparr>role = Assistant, text_t = JUndefined, image_t = JNull\<rparr>],
          input = [], isThinking = False, imageBase64 = JNull, imagePreview = JNull\<rparr> \<and>
   sendMessage_settled (Responded 404 (Some not_found_body)) awaiting \<noteq>
     Inr (awaiting\<lparr>messages := messages awaiting @
                     [\<lparr>role = Assistant, text_t = JStr (js ''Error contacting backend.''),
                       image_t = JNull\<rparr>],
                   isThinking := False\<rparr>)"
  by (simp add: sendMessage_settled_def not_found_body_def awaiting_def commit_Cons commit_Nil
      js_def)

text \<open>
  Claim C8. For every request that settles with a JSON body that is an object whose
  \<open>answer\<close> is the string \<open>x\<close>, \<open>sendMessage\<close> appends exactly one assistant Turn whose
  text is \<open>x\<close> and whose image is none, and the thinking flag returns to false.
\<close>

theorem success_appends_answer_turn:
  assumes "map_of kvs (js ''answer'') = Some (JStr x)"
  shows "sendMessage_settled (Responded status (Some (JObj kvs))) s =
           Inr (s\<lparr>messages := messages s @
                     [\<lparr>role = Assistant, text_t = JStr x, image_t = JNull\<rparr>],
                   isThinking := False\<rparr>)"
  using assms by (simp add: sendMessage_settled_def commit_Cons commit_Nil)

theorem success_appends_answer_turn_witness:
  "map_of [(js ''answer'', JStr (js ''An oak.''))] (js ''answer'') = Some (JStr (js ''An oak.'')) \<and>
   sendMessage_settled (Responded 200 (Some (JObj [(js ''answer'', JStr (js ''An oak.''))])))
       awaiting =
     Inr \<lparr>messages = [\<lparr>role = User, text_t = JStr (js ''hi''), image_t = JNull\<rparr>,
                      \<lparr>role = Assistant, text_t = JStr (js ''An oak.''), image_t = JNull\<rparr>],
          input = [], isThinking = False, imageBase64 = JNull, imagePreview = JNull\<rparr>"
  using success_appends_answer_turn
    [of "[(js ''answer'', JStr (js ''An oak.''))]" "js ''An oak.''" 200 awaiting]
  by (simp add: awaiting_def)

section \<open>The pending attachment\<close>

text \<open>
  Claim C5. The state holds one payload and one preview. When the file picker delivers
  an image, or a paste whose first image item is that file, and the read succeeds, the
  handler overwrites both with the new image's payload and preview, whatever was pending
  before, and changes nothing else: the earlier attachment is gone, not kept beside the
  new one.
\<close>

theorem new_image_replaces_pending:
  assumes "fileToBase64 (Some f) = Inr b64"
  shows "(startsWith (file_type f) image_prefix \<longrightarrow>
            handleFile (Some f) preview s =
              s\<lparr>imageBase64 := b64, imagePreview := JStr preview\<rparr>) \<and>
         (find (\<lambda>i. startsWith (item_type i) image_prefix) items = Some item \<and>
            getAsFile item = Some f \<longrightarrow>
            handlePaste items preview s =
              s\<lparr>imageBase64 := b64, imagePreview := JStr preview\<rparr>)"
  using assms
  by (simp add: handleFile_def handlePaste_def attach_updates_def commit_Cons commit_Nil)

theorem new_image_replaces_pending_witness:
  "fileToBase64 (Some small_gif) = Inr (JStr (js ''R0lGODlh'')) \<and>
   startsWith (file_type small_gif) image_prefix \<and>
   handleFile (Some small_gif) blob2 composing =
     \<lparr>messages = [], input = js ''look'', isThinking = False,
      imageBase64 = JStr (js ''R0lGODlh''), imagePreview = JStr blob2\<rparr> \<and>
   handlePaste
       [\<lparr>item_type = js ''text/plain'', getAsFile = None\<rparr>,
        \<lparr>item_type = js ''image/gif'', getAsFile = Some small_gif\<rparr>] blob2 composing =
     \<lparr>messages = [], input = js ''look'', isThinking = False,
      imageBase64 = JStr (js ''R0lGODlh''), imagePreview = JStr blob2\<rparr>"
  using new_image_replaces_pending
    [of small_gif "JStr (js ''R0lGODlh'')" blob2 composing
      "[\<lparr>item_type = js ''text/plain'', getAsFile = None\<rparr>,
        \<lparr>item_type = js ''image/gif'', getAsFile = Some small_gif\<rparr>]"
      "\<lparr>item_type = js ''image/gif'', getAsFile = Some small_gif\<rparr>"]
  by (simp add: fileToBase64_small_gif small_gif_is_image composing_def)
    (simp add: startsWith_def image_prefix_def js_def)

text \<open>
  Claim C6. The remove button clears the payload and the preview in one run of its
  handler, so both are \<open>null\<close> in the state it leaves and no state lies between; the
  turns, the draft and the thinking flag stay as they were.
\<close>

theorem removeAttachment_clears_both:
  "removeAttachment s = s\<lparr>imageBase64 := JNull, imagePreview := JNull\<rparr>"
  by (simp add: removeAttachment_def commit_Cons commit_Nil)

theorem removeAttachment_clears_both_witness:
  "removeAttachment composing =
     \<lparr>messages = [], input = js ''look'', isThinking = False,
      imageBase64 = JNull, imagePreview = JNull\<rparr>"
  using removeAttachment_clears_both [of composing]
  by (simp add: composing_def)

text \<open>
  Claim C9. When no file was chosen, or the chosen file's media type does not begin with
  \<open>image/\<close>, the file-picker handler leaves the whole state as it was: attachment,
  draft, conversation and thinking flag; no Turn is added.
\<close>

theorem handleFile_ignores_non_image:
  "handleFile None preview s = s \<and>
   (\<not> startsWith (file_type f) image_prefix \<longrightarrow> handleFile (Some f) preview s = s)"
  by (simp add: handleFile_def)

theorem handleFile_ignores_non_image_witness:
  "handleFile None blob2 composing = composing \<and>
   \<not> startsWith (file_type notes_pdf) image_prefix \<and>
   handleFile (Some notes_pdf) blob2 composing = composing"
  using handleFile_ignores_non_image [of blob2 composing notes_pdf]
  by (simp add: notes_pdf_no_image)

end
